theory Spec2Isabelle
  imports Main
begin

section \<open>Python strings\<close>

text \<open>
  A Python \<^verbatim>\<open>str\<close> is modelled as a \<^typ>\<open>string\<close>: one \<^typ>\<open>char\<close> per code point,
  with the character classes of Python's \<^verbatim>\<open>str\<close> methods and of \<^verbatim>\<open>re\<close> written out for
  the ASCII range (a code point above 127 counts as a caseless symbol that is neither a
  word character nor white space).
\<close>

definition ascii_lowercase :: string where
  "ascii_lowercase = ''abcdefghijklmnopqrstuvwxyz''"

definition ascii_uppercase :: string where
  "ascii_uppercase = ''ABCDEFGHIJKLMNOPQRSTUVWXYZ''"

definition digits :: string where
  "digits = ''0123456789''"

definition newline :: char where
  "newline = CHR 0x0A"

text \<open>\<^verbatim>\<open>[a-z]\<close>, \<^verbatim>\<open>[A-Z]\<close>, \<^verbatim>\<open>[0-9]\<close>, \<^verbatim>\<open>\w\<close> and \<^verbatim>\<open>\s\<close> (which is also the white space
  of \<^verbatim>\<open>str.strip\<close>: tab, line feed, vertical tab, form feed, carriage return, the four
  separators 0x1C to 0x1F and the space).\<close>

definition is_lower :: "char \<Rightarrow> bool" where
  "is_lower c = (c \<in> set ascii_lowercase)"

definition is_upper :: "char \<Rightarrow> bool" where
  "is_upper c = (c \<in> set ascii_uppercase)"

definition is_digit :: "char \<Rightarrow> bool" where
  "is_digit c = (c \<in> set digits)"

definition is_word :: "char \<Rightarrow> bool" where
  "is_word c = (is_lower c \<or> is_upper c \<or> is_digit c \<or> c = CHR ''_'')"

definition is_space :: "char \<Rightarrow> bool" where
  "is_space c = (c \<in> set [CHR 0x09, CHR 0x0A, CHR 0x0B, CHR 0x0C, CHR 0x0D,
     CHR 0x1C, CHR 0x1D, CHR 0x1E, CHR 0x1F, CHR '' ''])"

text \<open>\<^verbatim>\<open>str.lower\<close>, \<^verbatim>\<open>str.upper\<close> on one character, and \<^verbatim>\<open>str.capitalize\<close>.\<close>

definition lower_char :: "char \<Rightarrow> char" where
  "lower_char c = (case map_of (zip ascii_uppercase ascii_lowercase) c of
     Some d \<Rightarrow> d | None \<Rightarrow> c)"

definition upper_char :: "char \<Rightarrow> char" where
  "upper_char c = (case map_of (zip ascii_lowercase ascii_uppercase) c of
     Some d \<Rightarrow> d | None \<Rightarrow> c)"

definition lower :: "string \<Rightarrow> string" where
  "lower s = map lower_char s"

fun capitalize :: "string \<Rightarrow> string" where
  "capitalize [] = []"
| "capitalize (c # cs) = upper_char c # lower cs"

text \<open>\<^verbatim>\<open>str.isupper\<close> and \<^verbatim>\<open>str.islower\<close>: some cased character, and no cased character
  of the other case.\<close>

definition isupper :: "string \<Rightarrow> bool" where
  "isupper s = (list_ex is_upper s \<and> \<not> list_ex is_lower s)"

definition islower :: "string \<Rightarrow> bool" where
  "islower s = (list_ex is_lower s \<and> \<not> list_ex is_upper s)"

fun startswith :: "string \<Rightarrow> string \<Rightarrow> bool" where
  "startswith s [] = True"
| "startswith [] (p # ps) = False"
| "startswith (c # cs) (p # ps) = (c = p \<and> startswith cs ps)"

definition endswith :: "string \<Rightarrow> string \<Rightarrow> bool" where
  "endswith s suffix = startswith (rev s) (rev suffix)"

text \<open>\<^verbatim>\<open>sub in s\<close> for strings.\<close>

fun contains :: "string \<Rightarrow> string \<Rightarrow> bool" where
  "contains sub [] = (sub = [])"
| "contains sub (c # cs) = (startswith (c # cs) sub \<or> contains sub cs)"

definition lstrip :: "string \<Rightarrow> string" where
  "lstrip s = dropWhile is_space s"

definition rstrip :: "string \<Rightarrow> string" where
  "rstrip s = rev (dropWhile is_space (rev s))"

definition strip :: "string \<Rightarrow> string" where
  "strip s = rstrip (lstrip s)"

text \<open>\<^verbatim>\<open>s.split(sep)\<close> for a separator of one character: one more piece than there
  are separators (the result is never empty, so the last case below never applies).\<close>

fun split :: "char \<Rightarrow> string \<Rightarrow> string list" where
  "split sep [] = [[]]"
| "split sep (c # cs) =
     (if c = sep then [] # split sep cs
      else (case split sep cs of p # ps \<Rightarrow> (c # p) # ps | [] \<Rightarrow> [[c]]))"

fun join :: "string \<Rightarrow> string list \<Rightarrow> string" where
  "join sep [] = []"
| "join sep [x] = x"
| "join sep (x # y # ys) = x @ sep @ join sep (y # ys)"

text \<open>The decimal text of an integer, as an f-string prints it.\<close>

definition digit_char :: "nat \<Rightarrow> char" where
  "digit_char d = digits ! (d mod 10)"

function str_nat :: "nat \<Rightarrow> string" where
  "str_nat n = (if n < 10 then [digit_char n] else str_nat (n div 10) @ [digit_char (n mod 10)])"
  by pat_completeness auto
termination
  by (relation "measure id") auto

declare str_nat.simps [simp del]

definition str_int :: "int \<Rightarrow> string" where
  "str_int i = (if i < 0 then CHR ''-'' # str_nat (nat (- i)) else str_nat (nat i))"

section \<open>The regular expressions of the analyzer\<close>

text \<open>
  Each pattern the analyzer passes to \<^verbatim>\<open>re\<close> is written as the function on strings it
  denotes. \<^verbatim>\<open>$\<close> matches at the end of the string and also just before a line feed that
  ends the string; \<open>before_dollar\<close> is the text that must then have been matched.
\<close>

definition before_dollar :: "string \<Rightarrow> string" where
  "before_dollar s = (if s \<noteq> [] \<and> last s = newline then butlast s else s)"

text \<open>\<^verbatim>\<open>re.match(r'^[a-z_][a-z0-9_]*$', name)\<close>\<close>

definition match_snake_case :: "string \<Rightarrow> bool" where
  "match_snake_case name =
     (case before_dollar name of
        [] \<Rightarrow> False
      | c # cs \<Rightarrow> (is_lower c \<or> c = CHR ''_'')
          \<and> list_all (\<lambda>d. is_lower d \<or> is_digit d \<or> d = CHR ''_'') cs)"

text \<open>\<^verbatim>\<open>re.match(r'^[A-Z][a-zA-Z0-9]*$', name)\<close>\<close>

definition match_pascal_case :: "string \<Rightarrow> bool" where
  "match_pascal_case name =
     (case before_dollar name of
        [] \<Rightarrow> False
      | c # cs \<Rightarrow> is_upper c \<and> list_all (\<lambda>d. is_lower d \<or> is_upper d \<or> is_digit d) cs)"

text \<open>\<^verbatim>\<open>re.sub(r'(?<!^)(?=[A-Z])', '_', name)\<close>: the empty match before every character
  of \<^verbatim>\<open>[A-Z]\<close> that is not the first character of the name is replaced by an underscore.\<close>

fun underscore_before_upper :: "string \<Rightarrow> string" where
  "underscore_before_upper [] = []"
| "underscore_before_upper (c # cs) =
     (if is_upper c then CHR ''_'' # c # underscore_before_upper cs
      else c # underscore_before_upper cs)"

fun sub_snake_case :: "string \<Rightarrow> string" where
  "sub_snake_case [] = []"
| "sub_snake_case (c # cs) = c # underscore_before_upper cs"

text \<open>\<^verbatim>\<open>re.split(r'[_\s]+', name)\<close>: the pieces between the maximal runs of underscores
  and white space (the result is never empty, so the last case below never applies).\<close>

definition is_separator :: "char \<Rightarrow> bool" where
  "is_separator c = (c = CHR ''_'' \<or> is_space c)"

function split_words :: "string \<Rightarrow> string list" where
  "split_words [] = [[]]"
| "split_words (c # cs) =
     (if is_separator c then [] # split_words (dropWhile is_separator cs)
      else (case split_words cs of p # ps \<Rightarrow> (c # p) # ps | [] \<Rightarrow> [[c]]))"
  by pat_completeness auto
termination
  by (relation "measure length") (auto simp: less_Suc_eq_le length_dropWhile_le)

text \<open>\<^verbatim>\<open>[^=\s]\<close>\<close>

definition not_eq_space :: "char \<Rightarrow> bool" where
  "not_eq_space c = (c \<noteq> CHR ''='' \<and> \<not> is_space c)"

text \<open>\<^verbatim>\<open>re.search(r'\w=[^=\s]|[^=\s]=\w', line)\<close>\<close>

fun search_missing_spaces :: "string \<Rightarrow> bool" where
  "search_missing_spaces (a # b # c # rest) =
     ((b = CHR ''='' \<and> ((is_word a \<and> not_eq_space c) \<or> (not_eq_space a \<and> is_word c)))
      \<or> search_missing_spaces (b # c # rest))"
| "search_missing_spaces rest = False"

text \<open>\<^verbatim>\<open>re.sub(r'(\w)=([^=\s])', r'\1 = \2', line)\<close>: every match, from left to right,
  the search resuming after the three characters of a match.\<close>

fun sub_word_eq :: "string \<Rightarrow> string" where
  "sub_word_eq (a # b # c # rest) =
     (if is_word a \<and> b = CHR ''='' \<and> not_eq_space c
      then a # '' = '' @ c # sub_word_eq rest
      else a # sub_word_eq (b # c # rest))"
| "sub_word_eq rest = rest"

text \<open>\<^verbatim>\<open>re.sub(r'([^=\s])=(\w)', r'\1 = \2', line)\<close>\<close>

fun sub_eq_word :: "string \<Rightarrow> string" where
  "sub_eq_word (a # b # c # rest) =
     (if not_eq_space a \<and> b = CHR ''='' \<and> is_word c
      then a # '' = '' @ c # sub_eq_word rest
      else a # sub_eq_word (b # c # rest))"
| "sub_eq_word rest = rest"

section \<open>Suggestions and the analyzer's state\<close>

record suggestion =
  type :: string
  severity :: string
  message :: string
  line :: "int option"
  suggested_fix :: "string option"

text \<open>The analyzer object: its one attribute is the list the checkers append to.\<close>

record analyzer =
  suggestions :: "suggestion list"

definition suggestions_append :: "suggestion \<Rightarrow> analyzer \<Rightarrow> analyzer" where
  "suggestions_append s self = self\<lparr>suggestions := suggestions self @ [s]\<rparr>"

section \<open>Syntax trees\<close>

text \<open>
  The nodes of Python's \<^verbatim>\<open>ast\<close> module. Every class the analyzer tests with
  \<^verbatim>\<open>isinstance\<close> has a constructor of its own, with the child nodes in the order of the
  class's \<^verbatim>\<open>_fields\<close> and the attributes the analyzer reads; a node of any other class is
  \<open>Other\<close> with the class name and its child nodes in order.

  \<open>FunctionDef name args body decorator_list returns type_params lineno end_lineno\<close>;
  \<open>end_lineno\<close> is \<open>None\<close> when the node has no such attribute (interpreters before 3.8).
  \<open>ClassDef name bases keywords body decorator_list type_params lineno\<close>.
  \<open>Assign targets value lineno\<close>. \<open>AugAssign target op value\<close>.
  \<open>For target iter body orelse lineno\<close>. \<open>While test body orelse lineno\<close>.
  \<open>If test body orelse\<close>. \<open>ExceptHandler type body lineno\<close>. \<open>Global names lineno\<close>.
  \<open>BoolOp op values\<close>. \<open>Name id ctx\<close>. \<open>ListLit elts ctx\<close>, \<open>DictLit keys values\<close> and
  \<open>SetLit elts\<close> are \<^verbatim>\<open>ast.List\<close>, \<^verbatim>\<open>ast.Dict\<close> and \<^verbatim>\<open>ast.Set\<close>. \<open>Add\<close> is the operator node
  \<^verbatim>\<open>ast.Add\<close>. \<open>ArgumentsNode\<close> is an \<^verbatim>\<open>ast.arguments\<close> node met on a walk.
\<close>

datatype 'a arguments = Arguments
  (posonlyargs: "'a list") (args: "'a list") (vararg: "'a option")
  (kwonlyargs: "'a list") (kw_defaults: "'a option list") (kwarg: "'a option")
  (defaults: "'a list")

datatype node =
    Module "node list"
  | FunctionDef (name_of: string) (args_of: "node arguments") "node list" "node list"
      "node option" "node list" (lineno_of: int) (end_lineno_of: "int option")
  | ArgumentsNode "node arguments"
  | ClassDef (name_of: string) "node list" "node list" "node list" "node list" "node list"
      (lineno_of: int)
  | Assign "node list" node (lineno_of: int)
  | AugAssign node node node
  | For node node "node list" "node list" (lineno_of: int)
  | While node "node list" "node list" (lineno_of: int)
  | If node "node list" "node list"
  | ExceptHandler "node option" "node list" (lineno_of: int)
  | Global "string list" (lineno_of: int)
  | BoolOp node (values_of: "node list")
  | Name string node
  | ListLit "node list" node
  | DictLit "node option list" "node list"
  | SetLit "node list"
  | Add
  | Other string "node list"

text \<open>The nodes among optional fields: \<^verbatim>\<open>ast.iter_child_nodes\<close> skips a field that is
  \<^verbatim>\<open>None\<close> and the \<^verbatim>\<open>None\<close> entries of a list.\<close>

fun present :: "'a option list \<Rightarrow> 'a list" where
  "present [] = []"
| "present (None # xs) = present xs"
| "present (Some x # xs) = x # present xs"

fun iter_child_nodes :: "node \<Rightarrow> node list" where
  "iter_child_nodes (Module body) = body"
| "iter_child_nodes (FunctionDef name a body decorator_list returns type_params lineno end_lineno) =
     ArgumentsNode a # body @ decorator_list @ present [returns] @ type_params"
| "iter_child_nodes (ArgumentsNode a) =
     posonlyargs a @ args a @ present [vararg a] @ kwonlyargs a @ present (kw_defaults a)
       @ present [kwarg a] @ defaults a"
| "iter_child_nodes (ClassDef name bases keywords body decorator_list type_params lineno) =
     bases @ keywords @ body @ decorator_list @ type_params"
| "iter_child_nodes (Assign targets v lineno) = targets @ [v]"
| "iter_child_nodes (AugAssign target op v) = [target, op, v]"
| "iter_child_nodes (For target iter body orelse lineno) = target # iter # body @ orelse"
| "iter_child_nodes (While test body orelse lineno) = test # body @ orelse"
| "iter_child_nodes (If test body orelse) = test # body @ orelse"
| "iter_child_nodes (ExceptHandler t body lineno) = present [t] @ body"
| "iter_child_nodes (Global names lineno) = []"
| "iter_child_nodes (BoolOp op vs) = op # vs"
| "iter_child_nodes (Name ident ctx) = [ctx]"
| "iter_child_nodes (ListLit elts ctx) = elts @ [ctx]"
| "iter_child_nodes (DictLit keys vs) = present keys @ vs"
| "iter_child_nodes (SetLit elts) = elts"
| "iter_child_nodes Add = []"
| "iter_child_nodes (Other cls children) = children"

text \<open>A measure under which the children of a node weigh less than the node.\<close>

definition weight :: "node \<Rightarrow> nat" where
  "weight n = 3 * size n + (case n of ArgumentsNode a \<Rightarrow> 0 | _ \<Rightarrow> 1)"

lemma weight_le: "weight n \<le> 3 * size n + 1"
  by (simp add: weight_def split: node.splits)

lemma weights_le: "sum_list (map weight xs) \<le> 3 * size_list size xs"
proof (induction xs)
  case Nil
  show ?case by simp
next
  case (Cons x xs)
  with weight_le [of x] show ?case by simp
qed

lemma weights_present:
  "sum_list (map weight (present xs)) \<le> 3 * size_list (size_option size) xs"
proof (induction xs rule: present.induct)
  case (3 x xs)
  with weight_le [of x] show ?case by simp
qed simp_all

lemma weight_iter_child_nodes: "sum_list (map weight (iter_child_nodes n)) < weight n"
proof (cases n)
  case (Module body)
  with weights_le [of body] show ?thesis by (simp add: weight_def)
next
  case (FunctionDef name a body decorator_list returns type_params lineno end_lineno)
  have "sum_list (map weight (present [returns])) \<le> 3 * size_option size returns"
    using weight_le [of "the returns"] by (cases returns) simp_all
  with FunctionDef weights_le [of body] weights_le [of decorator_list] weights_le [of type_params]
  show ?thesis by (simp add: weight_def)
next
  case (ArgumentsNode a)
  obtain p r v k d w f where a: "a = Arguments p r v k d w f" by (cases a)
  have "sum_list (map weight (present [v])) \<le> 3 * size_option size v"
    using weight_le [of "the v"] by (cases v) simp_all
  moreover have "sum_list (map weight (present [w])) \<le> 3 * size_option size w"
    using weight_le [of "the w"] by (cases w) simp_all
  ultimately show ?thesis
    using ArgumentsNode a weights_le [of p] weights_le [of r] weights_le [of k]
      weights_le [of f] weights_present [of d]
    by (simp add: weight_def)
next
  case (ClassDef name bases kws body decorator_list type_params lineno)
  with weights_le [of bases] weights_le [of kws] weights_le [of body]
    weights_le [of decorator_list] weights_le [of type_params]
  show ?thesis by (simp add: weight_def)
next
  case (Assign targets v lineno)
  with weights_le [of targets] weight_le [of v] show ?thesis by (simp add: weight_def)
next
  case (AugAssign target op v)
  with weight_le [of target] weight_le [of op] weight_le [of v] show ?thesis
    by (simp add: weight_def)
next
  case (For target iter body orelse lineno)
  with weight_le [of target] weight_le [of iter] weights_le [of body] weights_le [of orelse]
  show ?thesis by (simp add: weight_def)
next
  case (While test body orelse lineno)
  with weight_le [of test] weights_le [of body] weights_le [of orelse]
  show ?thesis by (simp add: weight_def)
next
  case (If test body orelse)
  with weight_le [of test] weights_le [of body] weights_le [of orelse]
  show ?thesis by (simp add: weight_def)
next
  case (ExceptHandler t body lineno)
  have "sum_list (map weight (present [t])) \<le> 3 * size_option size t"
    using weight_le [of "the t"] by (cases t) simp_all
  with ExceptHandler weights_le [of body] show ?thesis by (simp add: weight_def)
next
  case (Global names lineno)
  then show ?thesis by (simp add: weight_def)
next
  case (BoolOp op vs)
  with weight_le [of op] weights_le [of vs] show ?thesis by (simp add: weight_def)
next
  case (Name ident ctx)
  with weight_le [of ctx] show ?thesis by (simp add: weight_def)
next
  case (ListLit elts ctx)
  with weight_le [of ctx] weights_le [of elts] show ?thesis by (simp add: weight_def)
next
  case (DictLit keys vs)
  with weights_present [of keys] weights_le [of vs] show ?thesis by (simp add: weight_def)
next
  case (SetLit elts)
  with weights_le [of elts] show ?thesis by (simp add: weight_def)
next
  case Add
  then show ?thesis by (simp add: weight_def)
next
  case (Other cls children)
  with weights_le [of children] show ?thesis by (simp add: weight_def)
qed

text \<open>\<^verbatim>\<open>ast.walk\<close>: the nodes of a tree in breadth-first order. The queue \<open>todo\<close> is
  the deque of the library function: the first node is taken off, its children are put at
  the end, and the node is yielded.\<close>

function walk_todo :: "node list \<Rightarrow> node list" where
  "walk_todo [] = []"
| "walk_todo (n # todo) = n # walk_todo (todo @ iter_child_nodes n)"
  by pat_completeness auto
termination
proof (relation "measure (\<lambda>todo. sum_list (map weight todo))")
  show "wf (measure (\<lambda>todo. sum_list (map weight todo)))" by simp
next
  fix n :: node and todo :: "node list"
  have "sum_list (map weight (iter_child_nodes n)) < weight n"
    by (rule weight_iter_child_nodes)
  then show "(todo @ iter_child_nodes n, n # todo) \<in> measure (\<lambda>todo. sum_list (map weight todo))"
    by simp
qed

definition walk :: "node \<Rightarrow> node list" where
  "walk n = walk_todo [n]"

section \<open>The parser\<close>

text \<open>
  \<^verbatim>\<open>ast.parse\<close> belongs to the interpreter's library, not to the repository: the analysis
  takes it as a parameter. A call of it returns a tree, raises \<^verbatim>\<open>SyntaxError\<close> (with the
  text \<^verbatim>\<open>str(e)\<close> and the line \<^verbatim>\<open>e.lineno\<close>, which may be \<^verbatim>\<open>None\<close>), or raises an exception of
  another class, named by the class.
\<close>

record syntax_error =
  str_e :: string
  e_lineno :: "int option"

datatype parse_result =
    Parsed node
  | RaisedSyntaxError syntax_error
  | Raised string

section \<open>The suggestions the analyzer builds\<close>

text \<open>Each is the \<^verbatim>\<open>Suggestion(...)\<close> of one \<^verbatim>\<open>append\<close> call of the source, as a
  function of the values that call interpolates.\<close>

definition descriptive_name_suggestion :: "string \<Rightarrow> int \<Rightarrow> suggestion" where
  "descriptive_name_suggestion name lineno = \<lparr>
     type = ''readability'',
     severity = ''low'',
     message = ''Consider using a more descriptive name instead of '' @ [CHR 0x27] @ name
       @ [CHR 0x27],
     line = Some lineno,
     suggested_fix = Some ''descriptive_name = ...''\<rparr>"

definition snake_case_suggestion :: "string \<Rightarrow> string \<Rightarrow> int \<Rightarrow> suggestion" where
  "snake_case_suggestion name snake_case_name lineno = \<lparr>
     type = ''style'',
     severity = ''medium'',
     message = ''Function '' @ [CHR 0x27] @ name @ [CHR 0x27]
       @ '' should use snake_case naming (PEP 8)'',
     line = Some lineno,
     suggested_fix = Some (''def '' @ snake_case_name @ ''('')\<rparr>"

definition pascal_case_suggestion :: "string \<Rightarrow> string \<Rightarrow> int \<Rightarrow> suggestion" where
  "pascal_case_suggestion name pascal_case_name lineno = \<lparr>
     type = ''style'',
     severity = ''medium'',
     message = ''Class '' @ [CHR 0x27] @ name @ [CHR 0x27]
       @ '' should use PascalCase naming (PEP 8)'',
     line = Some lineno,
     suggested_fix = Some (''class '' @ pascal_case_name @ '':'')\<rparr>"

definition high_complexity_suggestion :: "string \<Rightarrow> int \<Rightarrow> int \<Rightarrow> suggestion" where
  "high_complexity_suggestion name complexity lineno = \<lparr>
     type = ''complexity'',
     severity = ''high'',
     message = ''Function '' @ [CHR 0x27] @ name @ [CHR 0x27] @ '' has high complexity (''
       @ str_int complexity @ ''). Consider refactoring.'',
     line = Some lineno,
     suggested_fix = None\<rparr>"

definition too_long_suggestion :: "string \<Rightarrow> int \<Rightarrow> int \<Rightarrow> suggestion" where
  "too_long_suggestion name len lineno = \<lparr>
     type = ''complexity'',
     severity = ''medium'',
     message = ''Function '' @ [CHR 0x27] @ name @ [CHR 0x27] @ '' is too long (''
       @ str_int len @ '' lines). Consider breaking it down.'',
     line = Some lineno,
     suggested_fix = None\<rparr>"

definition mutable_default_suggestion :: "string \<Rightarrow> int \<Rightarrow> suggestion" where
  "mutable_default_suggestion name lineno = \<lparr>
     type = ''best_practice'',
     severity = ''high'',
     message = ''Avoid mutable default arguments in function '' @ [CHR 0x27] @ name
       @ [CHR 0x27] @ ''. Use None instead.'',
     line = Some lineno,
     suggested_fix = Some (''def function_name(param=None):'' @ [newline]
       @ ''    if param is None:'' @ [newline] @ ''        param = []'')\<rparr>"

definition bare_except_suggestion :: "int \<Rightarrow> suggestion" where
  "bare_except_suggestion lineno = \<lparr>
     type = ''best_practice'',
     severity = ''high'',
     message = ''Avoid bare '' @ [CHR 0x27] @ ''except:'' @ [CHR 0x27]
       @ '' clauses. Specify exception types.'',
     line = Some lineno,
     suggested_fix = Some ''except Exception as e:''\<rparr>"

definition global_suggestion :: "int \<Rightarrow> suggestion" where
  "global_suggestion lineno = \<lparr>
     type = ''best_practice'',
     severity = ''medium'',
     message = ''Avoid using '' @ [CHR 0x27] @ ''global'' @ [CHR 0x27]
       @ ''. Consider using function parameters or class attributes.'',
     line = Some lineno,
     suggested_fix = Some (''# Pass value as parameter instead:'' @ [newline]
       @ ''def function(parameter):'' @ [newline] @ ''    return parameter'')\<rparr>"

definition concatenation_suggestion :: "int \<Rightarrow> suggestion" where
  "concatenation_suggestion lineno = \<lparr>
     type = ''performance'',
     severity = ''medium'',
     message = ''String concatenation in loop detected. Consider using join() or list comprehension.'',
     line = Some lineno,
     suggested_fix = Some (''# Use join instead:'' @ [newline] @ ''result = ''
       @ [CHR 0x27, CHR 0x27] @ ''.join(items)'' @ [newline] @ ''# or list comprehension:''
       @ [newline] @ ''result = '' @ [CHR 0x27, CHR 0x27]
       @ ''.join([str(item) for item in items])'')\<rparr>"

definition line_length_suggestion :: "int \<Rightarrow> suggestion" where
  "line_length_suggestion i = \<lparr>
     type = ''style'',
     severity = ''low'',
     message = ''Line exceeds 120 characters (PEP 8 recommends max 79-120)'',
     line = Some i,
     suggested_fix = None\<rparr>"

definition trailing_whitespace_suggestion :: "int \<Rightarrow> string \<Rightarrow> suggestion" where
  "trailing_whitespace_suggestion i ln = \<lparr>
     type = ''style'',
     severity = ''low'',
     message = ''Trailing whitespace detected'',
     line = Some i,
     suggested_fix = Some (rstrip ln)\<rparr>"

definition missing_spaces_suggestion :: "int \<Rightarrow> string \<Rightarrow> suggestion" where
  "missing_spaces_suggestion i fixed_line = \<lparr>
     type = ''style'',
     severity = ''low'',
     message = ''Missing spaces around assignment operator (PEP 8)'',
     line = Some i,
     suggested_fix = Some (strip fixed_line)\<rparr>"

definition multiple_statements_suggestion :: "int \<Rightarrow> string \<Rightarrow> suggestion" where
  "multiple_statements_suggestion i fixed = \<lparr>
     type = ''style'',
     severity = ''medium'',
     message = ''Avoid multiple statements on one line (PEP 8)'',
     line = Some i,
     suggested_fix = Some fixed\<rparr>"

definition syntax_suggestion :: "syntax_error \<Rightarrow> suggestion" where
  "syntax_suggestion e = \<lparr>
     type = ''syntax'',
     severity = ''high'',
     message = ''Syntax error: '' @ str_e e,
     line = e_lineno e,
     suggested_fix = None\<rparr>"


section \<open>The checkers\<close>

subsection \<open>Naming conventions\<close>

text \<open>The body of the loop over the targets of an assignment.\<close>

fun check_target :: "int \<Rightarrow> node \<Rightarrow> analyzer \<Rightarrow> analyzer" where
  "check_target lineno (Name name ctx) self =
     (if isupper name \<and> length name > 1 then self
      else if CHR ''_'' \<notin> set name \<and> islower name \<and> length name = 1 then
        suggestions_append (descriptive_name_suggestion name lineno) self
      else self)"
| "check_target lineno target self = self"

text \<open>The body of the loop over the nodes of the tree.\<close>

fun naming_conventions_node :: "node \<Rightarrow> analyzer \<Rightarrow> analyzer" where
  "naming_conventions_node
     (FunctionDef name a body decorator_list returns type_params lineno end_lineno) self =
     (if \<not> match_snake_case name \<and> \<not> startswith name ''__'' then
        (let snake_case_name = lower (sub_snake_case name) in
         suggestions_append (snake_case_suggestion name snake_case_name lineno) self)
      else self)"
| "naming_conventions_node
     (ClassDef name bases keywords body decorator_list type_params lineno) self =
     (if \<not> match_pascal_case name then
        (let pascal_case_name = concat (map capitalize (split_words name)) in
         suggestions_append (pascal_case_suggestion name pascal_case_name lineno) self)
      else self)"
| "naming_conventions_node (Assign targets v lineno) self =
     fold (check_target lineno) targets self"
| "naming_conventions_node node self = self"

definition check_naming_conventions :: "node \<Rightarrow> string \<Rightarrow> analyzer \<Rightarrow> analyzer" where
  "check_naming_conventions tree code self = fold naming_conventions_node (walk tree) self"

subsection \<open>Complexity and length\<close>

fun complexity_step :: "node \<Rightarrow> int \<Rightarrow> int" where
  "complexity_step (If test body orelse) complexity = complexity + 1"
| "complexity_step (While test body orelse lineno) complexity = complexity + 1"
| "complexity_step (For target iter body orelse lineno) complexity = complexity + 1"
| "complexity_step (ExceptHandler t body lineno) complexity = complexity + 1"
| "complexity_step (BoolOp op vs) complexity = complexity + (int (length vs) - 1)"
| "complexity_step child complexity = complexity"

definition calculate_complexity :: "node \<Rightarrow> int" where
  "calculate_complexity node = fold complexity_step (walk node) 1"

fun code_complexity_node :: "node \<Rightarrow> analyzer \<Rightarrow> analyzer" where
  "code_complexity_node
     (FunctionDef name a body decorator_list returns type_params lineno end_lineno) self =
     (let complexity = calculate_complexity
            (FunctionDef name a body decorator_list returns type_params lineno end_lineno);
          self = (if complexity > 10 then
            suggestions_append (high_complexity_suggestion name complexity lineno) self
            else self)
      in case end_lineno of
           None \<Rightarrow> self
         | Some e \<Rightarrow>
             (let len = e - lineno in
              if len > 50 then
                suggestions_append (too_long_suggestion name len lineno) self
              else self))"
| "code_complexity_node node self = self"

definition check_code_complexity :: "node \<Rightarrow> analyzer \<Rightarrow> analyzer" where
  "check_code_complexity tree self = fold code_complexity_node (walk tree) self"

subsection \<open>Best practices\<close>

text \<open>\<^verbatim>\<open>isinstance(default, (ast.List, ast.Dict, ast.Set))\<close>\<close>

fun is_mutable_literal :: "node \<Rightarrow> bool" where
  "is_mutable_literal (ListLit elts ctx) = True"
| "is_mutable_literal (DictLit keys vs) = True"
| "is_mutable_literal (SetLit elts) = True"
| "is_mutable_literal node = False"

text \<open>The body of the loop over \<^verbatim>\<open>node.args.defaults\<close>.\<close>

definition check_default :: "string \<Rightarrow> int \<Rightarrow> node \<Rightarrow> analyzer \<Rightarrow> analyzer" where
  "check_default name lineno dflt self =
     (if is_mutable_literal dflt then
        suggestions_append (mutable_default_suggestion name lineno) self
      else self)"

fun best_practices_node :: "node \<Rightarrow> analyzer \<Rightarrow> analyzer" where
  "best_practices_node (ExceptHandler t body lineno) self =
     (if t = None then
        suggestions_append (bare_except_suggestion lineno) self
      else self)"
| "best_practices_node
     (FunctionDef name a body decorator_list returns type_params lineno end_lineno) self =
     fold (check_default name lineno) (defaults a) self"
| "best_practices_node (Global names lineno) self =
     suggestions_append (global_suggestion lineno) self"
| "best_practices_node node self = self"

definition check_best_practices :: "node \<Rightarrow> string \<Rightarrow> analyzer \<Rightarrow> analyzer" where
  "check_best_practices tree code self = fold best_practices_node (walk tree) self"

subsection \<open>Performance\<close>

text \<open>\<^verbatim>\<open>isinstance(child, ast.AugAssign) and isinstance(child.op, ast.Add)\<close> and
  \<^verbatim>\<open>isinstance(child.target, ast.Name)\<close>\<close>

fun is_add_to_name :: "node \<Rightarrow> bool" where
  "is_add_to_name (AugAssign (Name name ctx) Add v) = True"
| "is_add_to_name child = False"

text \<open>The inner loop over the nodes of a loop's subtree: it appends at the first match and
  breaks.\<close>

fun scan_loop :: "int \<Rightarrow> node list \<Rightarrow> analyzer \<Rightarrow> analyzer" where
  "scan_loop lineno [] self = self"
| "scan_loop lineno (child # rest) self =
     (if is_add_to_name child then
        suggestions_append (concatenation_suggestion lineno) self
      else scan_loop lineno rest self)"

text \<open>The body of the loop over the nodes of the tree. Its second test, for calls of an
  \<^verbatim>\<open>append\<close> attribute, ends in \<^verbatim>\<open>pass\<close> and changes nothing.\<close>

fun performance_issues_node :: "node \<Rightarrow> analyzer \<Rightarrow> analyzer" where
  "performance_issues_node (For target iter body orelse lineno) self =
     scan_loop lineno (walk (For target iter body orelse lineno)) self"
| "performance_issues_node (While test body orelse lineno) self =
     scan_loop lineno (walk (While test body orelse lineno)) self"
| "performance_issues_node node self = self"

definition check_performance_issues :: "node \<Rightarrow> string \<Rightarrow> analyzer \<Rightarrow> analyzer" where
  "check_performance_issues tree code self = fold performance_issues_node (walk tree) self"

subsection \<open>Style, line by line\<close>

definition operators_with_equals :: "string list" where
  "operators_with_equals = [''=='', ''!='', ''<='', ''>='', ''+='', ''-='', ''*='', ''/='']"

text \<open>The body of the loop over the numbered lines.\<close>

definition style_issues_line :: "int \<Rightarrow> string \<Rightarrow> analyzer \<Rightarrow> analyzer" where
  "style_issues_line i ln self =
     (let self = (if length ln > 120 then
            suggestions_append (line_length_suggestion i) self
            else self);
          self = (if endswith ln '' '' \<or> endswith ln [CHR 0x09] then
            suggestions_append (trailing_whitespace_suggestion i ln) self
            else self);
          self = (if CHR ''='' \<in> set ln \<and> \<not> list_ex (\<lambda>x. contains x ln) operators_with_equals then
            (if search_missing_spaces ln then
               (let fixed_line = sub_word_eq ln;
                    fixed_line = sub_eq_word fixed_line in
                suggestions_append (missing_spaces_suggestion i fixed_line) self)
             else self)
            else self);
          self = (if CHR '';'' \<in> set ln \<and> \<not> startswith (strip ln) ''#'' then
            (let statements = split (CHR '';'') ln;
                 fixed = join [newline] (map strip (filter (\<lambda>s. strip s \<noteq> []) statements)) in
             suggestions_append (multiple_statements_suggestion i fixed) self)
            else self)
      in self)"

text \<open>\<^verbatim>\<open>enumerate(lines, 1)\<close>\<close>

definition enumerate_from :: "int \<Rightarrow> 'a list \<Rightarrow> (int \<times> 'a) list" where
  "enumerate_from start xs = zip (map (\<lambda>k. start + int k) [0 ..< length xs]) xs"

definition check_style_issues :: "string \<Rightarrow> analyzer \<Rightarrow> analyzer" where
  "check_style_issues code self =
     (let lines = split newline code in
      fold (\<lambda>(i, ln). style_issues_line i ln) (enumerate_from 1 lines) self)"

section \<open>The analysis\<close>

text \<open>
  \<^verbatim>\<open>analyze\<close> on the analyzer \<open>self\<close>: the value returned (\<open>Inr\<close>) or the exception that
  leaves the method (\<open>Inl\<close>), and the analyzer afterwards. Only \<^verbatim>\<open>SyntaxError\<close> is caught.
\<close>

definition analyze ::
  "(string \<Rightarrow> parse_result) \<Rightarrow> analyzer \<Rightarrow> string \<Rightarrow> (string + suggestion list) \<times> analyzer"
where
  "analyze ast_parse self code_snippet =
     (let self = self\<lparr>suggestions := []\<rparr> in
      case ast_parse code_snippet of
        RaisedSyntaxError e \<Rightarrow>
          (let self = suggestions_append (syntax_suggestion e) self
           in (Inr (suggestions self), self))
      | Raised exception \<Rightarrow> (Inl exception, self)
      | Parsed tree \<Rightarrow>
          (let self = check_naming_conventions tree code_snippet self;
               self = check_code_complexity tree self;
               self = check_best_practices tree code_snippet self;
               self = check_performance_issues tree code_snippet self;
               self = check_style_issues code_snippet self
           in (Inr (suggestions self), self)))"

section \<open>What a checker appends\<close>

text \<open>
  Every checker only appends to the list of the analyzer. \<open>emitted f\<close> is what the
  state transformer \<open>f\<close> appends when it starts from the empty list, and \<open>appends f\<close> says
  that \<open>f\<close> appends exactly that, whatever the list held before.
\<close>

definition emitted :: "(analyzer \<Rightarrow> analyzer) \<Rightarrow> suggestion list" where
  "emitted f = suggestions (f \<lparr>suggestions = []\<rparr>)"

definition appends :: "(analyzer \<Rightarrow> analyzer) \<Rightarrow> bool" where
  "appends f = (\<forall>self. f self = \<lparr>suggestions = suggestions self @ emitted f\<rparr>)"

text \<open>What each checker appends for a whole tree or text, and what a successful analysis
  returns.\<close>

definition naming_emitted :: "node \<Rightarrow> suggestion list" where
  "naming_emitted tree = concat (map (\<lambda>n. emitted (naming_conventions_node n)) (walk tree))"

definition complexity_emitted :: "node \<Rightarrow> suggestion list" where
  "complexity_emitted tree = concat (map (\<lambda>n. emitted (code_complexity_node n)) (walk tree))"

definition best_practices_emitted :: "node \<Rightarrow> suggestion list" where
  "best_practices_emitted tree = concat (map (\<lambda>n. emitted (best_practices_node n)) (walk tree))"

definition performance_emitted :: "node \<Rightarrow> suggestion list" where
  "performance_emitted tree =
     concat (map (\<lambda>n. emitted (performance_issues_node n)) (walk tree))"

definition style_emitted :: "string \<Rightarrow> suggestion list" where
  "style_emitted code =
     concat (map (\<lambda>(i, ln). emitted (style_issues_line i ln))
       (enumerate_from 1 (split newline code)))"

definition parsed_result :: "node \<Rightarrow> string \<Rightarrow> suggestion list" where
  "parsed_result tree code =
     naming_emitted tree @ complexity_emitted tree @ best_practices_emitted tree
       @ performance_emitted tree @ style_emitted code"

section \<open>Vocabulary of the claims\<close>

text \<open>A parser known by the outcome of its one call: what stands for \<^verbatim>\<open>ast.parse\<close> where a
  statement is evaluated on a given text.\<close>

definition returning :: "parse_result \<Rightarrow> string \<Rightarrow> parse_result" where
  "returning outcome code_snippet = outcome"

text \<open>A suggestion of a type other than \<open>syntax\<close> that carries a line number.\<close>

definition located :: "suggestion \<Rightarrow> bool" where
  "located s = (type s \<noteq> ''syntax'' \<and> line s \<noteq> None)"

text \<open>A suggestion of one of the given types that carries a line number.\<close>

definition stamped :: "string list \<Rightarrow> suggestion \<Rightarrow> bool" where
  "stamped types s = (type s \<in> set types \<and> line s \<noteq> None)"

text \<open>
  The complexity of the specification: one for the base path, one more for every
  conditional branch (\<^verbatim>\<open>ast.If\<close>), loop (\<^verbatim>\<open>ast.While\<close>, \<^verbatim>\<open>ast.For\<close>) and exception handler
  (\<^verbatim>\<open>ast.ExceptHandler\<close>) among the nodes of the subtree, and \<open>N - 1\<close> more for every boolean
  combination (\<^verbatim>\<open>ast.BoolOp\<close>) of \<open>N\<close> operands among them.
\<close>

definition is_decision :: "node \<Rightarrow> bool" where
  "is_decision n = (is_If n \<or> is_While n \<or> is_For n \<or> is_ExceptHandler n)"

definition cyclomatic_complexity :: "node \<Rightarrow> int" where
  "cyclomatic_complexity n =
     1 + int (length (filter is_decision (walk n)))
       + sum_list (map (\<lambda>b. int (length (values_of b)) - 1) (filter is_BoolOp (walk n)))"

definition is_high_complexity :: "suggestion \<Rightarrow> bool" where
  "is_high_complexity s = (type s = ''complexity'' \<and> severity s = ''high'')"

text \<open>Suggestions of type \<open>performance\<close>, and the loops: \<^verbatim>\<open>ast.For\<close> and \<^verbatim>\<open>ast.While\<close>.\<close>

definition is_performance :: "suggestion \<Rightarrow> bool" where
  "is_performance s = (type s = ''performance'')"

definition is_loop :: "node \<Rightarrow> bool" where
  "is_loop n = (is_For n \<or> is_While n)"



section \<open>Source texts and their trees\<close>

text \<open>Python texts, their lines joined by \<open>newline\<close>, and the trees \<^verbatim>\<open>ast.parse\<close> returns
  for them, node for node.\<close>

text \<open>The function of the repository's test \<^verbatim>\<open>test_analyzer_complexity\<close>: six nested
  \<^verbatim>\<open>if\<close> statements.\<close>

definition six_ifs_code :: string where
  "six_ifs_code =
     [newline] @ ''def complex_function(x, y, z):'' @ [newline] @ ''    if x > 0:'' @
     [newline] @ ''        if y > 0:'' @ [newline] @ ''            if z > 0:'' @ [newline] @
     ''                if x > y:'' @ [newline] @ ''                    if y > z:'' @ [newline]
     @ ''                        if z > 1:'' @ [newline] @
     ''                            return True'' @ [newline] @ ''    return False'' @
     [newline]"

definition six_ifs_tree :: node where
  "six_ifs_tree =
     Module [FunctionDef ''complex_function'' (Arguments [] [Other ''arg'' [], Other ''arg''
     [], Other ''arg'' []] None [] [] None []) [If (Other ''Compare'' [Name ''x'' (Other
     ''Load'' []), Other ''Gt'' [], Other ''Constant'' []]) [If (Other ''Compare'' [Name ''y''
     (Other ''Load'' []), Other ''Gt'' [], Other ''Constant'' []]) [If (Other ''Compare''
     [Name ''z'' (Other ''Load'' []), Other ''Gt'' [], Other ''Constant'' []]) [If (Other
     ''Compare'' [Name ''x'' (Other ''Load'' []), Other ''Gt'' [], Name ''y'' (Other ''Load''
     [])]) [If (Other ''Compare'' [Name ''y'' (Other ''Load'' []), Other ''Gt'' [], Name ''z''
     (Other ''Load'' [])]) [If (Other ''Compare'' [Name ''z'' (Other ''Load'' []), Other
     ''Gt'' [], Other ''Constant'' []]) [Other ''Return'' [Other ''Constant'' []]] []] []] []]
     []] []] [], Other ''Return'' [Other ''Constant'' []]] [] None [] 2 (Some 10)]"

text \<open>The function of the repository's test \<^verbatim>\<open>test_analyzer_naming_convention\<close>.\<close>

definition bad_name_code :: string where
  "bad_name_code =
     ''def BadFunctionName():'' @ [newline] @ ''    pass''"

definition bad_name_tree :: node where
  "bad_name_tree =
     Module [FunctionDef ''BadFunctionName'' (Arguments [] [] None [] [] None []) [Other
     ''Pass'' []] [] None [] 1 (Some 2)]"

text \<open>A loop with two augmented additions.\<close>

definition two_adds_code :: string where
  "two_adds_code =
     ''def calculate_sum(numbers):'' @ [newline] @ ''    total = 0'' @ [newline] @
     ''    count = 0'' @ [newline] @ ''    for num in numbers:'' @ [newline] @
     ''        total += num'' @ [newline] @ ''        count += 1'' @ [newline] @
     ''    return total''"

definition two_adds_tree :: node where
  "two_adds_tree =
     Module [FunctionDef ''calculate_sum'' (Arguments [] [Other ''arg'' []] None [] [] None
     []) [Assign [Name ''total'' (Other ''Store'' [])] (Other ''Constant'' []) 2, Assign [Name
     ''count'' (Other ''Store'' [])] (Other ''Constant'' []) 3, For (Name ''num'' (Other
     ''Store'' [])) (Name ''numbers'' (Other ''Load'' [])) [AugAssign (Name ''total'' (Other
     ''Store'' [])) Add (Name ''num'' (Other ''Load'' [])), AugAssign (Name ''count'' (Other
     ''Store'' [])) Add (Other ''Constant'' [])] [] 4, Other ''Return'' [Name ''total'' (Other
     ''Load'' [])]] [] None [] 1 (Some 7)]"

text \<open>A list as the default of a positional parameter.\<close>

definition list_default_code :: string where
  "list_default_code =
     ''def f(x=[]):'' @ [newline] @ ''    pass''"

definition list_default_tree :: node where
  "list_default_tree =
     Module [FunctionDef ''f'' (Arguments [] [Other ''arg'' []] None [] [] None [ListLit []
     (Other ''Load'' [])]) [Other ''Pass'' []] [] None [] 1 (Some 2)]"

text \<open>A list as the default of a keyword-only parameter: the parser puts it in
  \<^verbatim>\<open>kw_defaults\<close>, not in \<^verbatim>\<open>defaults\<close>.\<close>

definition keyword_only_default_code :: string where
  "keyword_only_default_code =
     ''def f(*, x=[]):'' @ [newline] @ ''    pass''"

definition keyword_only_default_tree :: node where
  "keyword_only_default_tree =
     Module [FunctionDef ''f'' (Arguments [] [] None [Other ''arg'' []] [Some (ListLit []
     (Other ''Load'' []))] None []) [Other ''Pass'' []] [] None [] 1 (Some 2)]"






text \<open>The text of the repository's test \<^verbatim>\<open>test_analyzer_syntax_error\<close> and the error the
  parser raises on it.\<close>

definition broken_code :: string where
  "broken_code = ''def broken('' @ [newline] @ ''    pass''"

definition broken_error :: syntax_error where
  "broken_error = \<lparr>
     str_e = [CHR 0x27] @ ''('' @ [CHR 0x27] @ '' was never closed (<unknown>, line 1)'',
     e_lineno = Some 1\<rparr>"

text \<open>The sum \<^verbatim>\<open>a+a+...+a\<close> of \<open>k\<close> additions.\<close>

definition nested_sum :: "nat \<Rightarrow> string" where
  "nested_sum k = CHR ''a'' # concat (replicate k ''+a'')"

text \<open>A function of \<open>k + 1\<close> lines: the \<^verbatim>\<open>def\<close> line and \<open>k\<close> lines of \<^verbatim>\<open>pass\<close>. The parser
  gives it \<^verbatim>\<open>lineno\<close> 1 and \<^verbatim>\<open>end_lineno\<close> \<open>k + 1\<close>.\<close>

definition long_function_code :: "nat \<Rightarrow> string" where
  "long_function_code k = ''def f():'' @ concat (replicate k ([newline] @ ''    pass''))"

definition long_function_tree :: "nat \<Rightarrow> node" where
  "long_function_tree k =
     Module [FunctionDef ''f'' (Arguments [] [] None [] [] None [])
       (replicate k (Other ''Pass'' [])) [] None [] 1 (Some (1 + int k))]"

section \<open>The checkers append, node by node\<close>

lemma appendsI: "(\<And>self. f self = \<lparr>suggestions = suggestions self @ ss\<rparr>) \<Longrightarrow> appends f"
  by (simp add: appends_def emitted_def)

lemma appendsD: "appends f \<Longrightarrow> f self = \<lparr>suggestions = suggestions self @ emitted f\<rparr>"
  by (simp add: appends_def)

lemma appends_fold:
  assumes "\<And>x. appends (f x)"
  shows "fold f xs self = \<lparr>suggestions = suggestions self @ concat (map (\<lambda>x. emitted (f x)) xs)\<rparr>"
proof (induction xs arbitrary: self)
  case Nil
  show ?case by simp
next
  case (Cons x xs)
  have "f x self = \<lparr>suggestions = suggestions self @ emitted (f x)\<rparr>"
    using assms by (rule appendsD)
  with Cons show ?case by simp
qed

lemma appends_foldI: "(\<And>x. appends (f x)) \<Longrightarrow> appends (fold f xs)"
  by (rule appendsI [of _ "concat (map (\<lambda>x. emitted (f x)) xs)"]) (rule appends_fold)

lemma emitted_fold:
  "(\<And>x. appends (f x)) \<Longrightarrow> emitted (fold f xs) = concat (map (\<lambda>x. emitted (f x)) xs)"
  by (simp add: emitted_def appends_fold)

lemma appends_check_target: "appends (check_target lineno target)"
  by (cases target) (simp_all add: appends_def emitted_def suggestions_append_def)

lemma appends_naming_conventions_node: "appends (naming_conventions_node node)"
proof (cases node)
  case (Assign targets v lineno)
  have "naming_conventions_node node = fold (check_target lineno) targets"
    by (rule ext) (simp add: Assign)
  moreover have "appends (fold (check_target lineno) targets)"
    by (rule appends_foldI) (rule appends_check_target)
  ultimately show ?thesis by simp
qed (simp_all add: appends_def emitted_def suggestions_append_def Let_def)

lemma appends_code_complexity_node: "appends (code_complexity_node node)"
  by (cases node)
    (simp_all add: appends_def emitted_def suggestions_append_def Let_def split: option.split)

lemma appends_check_default: "appends (check_default name lineno dflt)"
  by (simp add: appends_def emitted_def suggestions_append_def check_default_def)

lemma appends_best_practices_node: "appends (best_practices_node node)"
proof (cases node)
  case (FunctionDef name a body decorator_list returns type_params lineno end_lineno)
  have "best_practices_node node = fold (check_default name lineno) (defaults a)"
    by (rule ext) (simp add: FunctionDef)
  moreover have "appends (fold (check_default name lineno) (defaults a))"
    by (rule appends_foldI) (rule appends_check_default)
  ultimately show ?thesis by simp
qed (simp_all add: appends_def emitted_def suggestions_append_def)

lemma scan_loop_eq:
  "scan_loop lineno children self =
     (if list_ex is_add_to_name children
      then suggestions_append (concatenation_suggestion lineno) self else self)"
  by (induction children) simp_all

lemma appends_performance_issues_node: "appends (performance_issues_node node)"
  by (cases node)
    (simp_all add: appends_def emitted_def suggestions_append_def scan_loop_eq)

lemma appends_style_issues_line: "appends (style_issues_line i ln)"
  by (simp add: appends_def emitted_def suggestions_append_def style_issues_line_def Let_def)

lemma check_naming_conventions_eq:
  "check_naming_conventions tree code self =
     \<lparr>suggestions = suggestions self @ naming_emitted tree\<rparr>"
  unfolding check_naming_conventions_def naming_emitted_def
  by (rule appends_fold) (rule appends_naming_conventions_node)

lemma check_code_complexity_eq:
  "check_code_complexity tree self = \<lparr>suggestions = suggestions self @ complexity_emitted tree\<rparr>"
  unfolding check_code_complexity_def complexity_emitted_def
  by (rule appends_fold) (rule appends_code_complexity_node)

lemma check_best_practices_eq:
  "check_best_practices tree code self =
     \<lparr>suggestions = suggestions self @ best_practices_emitted tree\<rparr>"
  unfolding check_best_practices_def best_practices_emitted_def
  by (rule appends_fold) (rule appends_best_practices_node)

lemma check_performance_issues_eq:
  "check_performance_issues tree code self =
     \<lparr>suggestions = suggestions self @ performance_emitted tree\<rparr>"
  unfolding check_performance_issues_def performance_emitted_def
  by (rule appends_fold) (rule appends_performance_issues_node)

lemma check_style_issues_eq:
  "check_style_issues code self = \<lparr>suggestions = suggestions self @ style_emitted code\<rparr>"
proof -
  have "appends (case x of (i, ln) \<Rightarrow> style_issues_line i ln)" for x
    by (cases x) (simp add: appends_style_issues_line)
  then have "fold (\<lambda>(i, ln). style_issues_line i ln) xs self =
      \<lparr>suggestions = suggestions self
         @ concat (map (\<lambda>x. emitted (case x of (i, ln) \<Rightarrow> style_issues_line i ln)) xs)\<rparr>" for xs
    by (rule appends_fold)
  moreover have "(\<lambda>x. emitted (case x of (i, ln) \<Rightarrow> style_issues_line i ln)) =
      (\<lambda>(i, ln). emitted (style_issues_line i ln))"
    by (rule ext) (simp split: prod.split)
  ultimately show ?thesis
    by (simp add: check_style_issues_def style_emitted_def)
qed

lemma analyze_parsed:
  assumes "ast_parse code = Parsed tree"
  shows "analyze ast_parse self code =
    (Inr (parsed_result tree code), \<lparr>suggestions = parsed_result tree code\<rparr>)"
  using assms
  by (simp add: analyze_def parsed_result_def check_naming_conventions_eq
      check_code_complexity_eq check_best_practices_eq check_performance_issues_eq
      check_style_issues_eq)

lemma analyze_syntax_error:
  assumes "ast_parse code = RaisedSyntaxError e"
  shows "analyze ast_parse self code =
    (Inr [syntax_suggestion e], \<lparr>suggestions = [syntax_suggestion e]\<rparr>)"
  using assms by (simp add: analyze_def suggestions_append_def)

lemma analyze_raised:
  assumes "ast_parse code = Raised x"
  shows "analyze ast_parse self code = (Inl x, \<lparr>suggestions = []\<rparr>)"
  using assms by (simp add: analyze_def)

section \<open>Every suggestion of a checker carries a line\<close>

lemma list_all_concat_map: "(\<And>x. list_all Q (g x)) \<Longrightarrow> list_all Q (concat (map g xs))"
  by (induction xs) simp_all

lemma stamped_check_target:
  "list_all (stamped [''style'', ''readability'']) (emitted (check_target lineno target))"
  by (cases target)
    (simp_all add: emitted_def suggestions_append_def stamped_def descriptive_name_suggestion_def)

lemma stamped_naming_conventions_node:
  "list_all (stamped [''style'', ''readability'']) (emitted (naming_conventions_node node))"
proof (cases node)
  case (Assign targets v lineno)
  have "naming_conventions_node node = fold (check_target lineno) targets"
    by (rule ext) (simp add: Assign)
  then have "emitted (naming_conventions_node node) =
      concat (map (\<lambda>x. emitted (check_target lineno x)) targets)"
    by (simp add: emitted_fold appends_check_target)
  then show ?thesis
    by (simp add: list_all_concat_map stamped_check_target)
qed (simp_all add: emitted_def suggestions_append_def stamped_def Let_def
    snake_case_suggestion_def pascal_case_suggestion_def)

lemma stamped_code_complexity_node:
  "list_all (stamped [''complexity'']) (emitted (code_complexity_node node))"
  by (cases node)
    (simp_all add: emitted_def suggestions_append_def stamped_def Let_def
      high_complexity_suggestion_def too_long_suggestion_def split: option.split)

lemma stamped_check_default:
  "list_all (stamped [''best_practice'']) (emitted (check_default name lineno dflt))"
  by (simp add: emitted_def suggestions_append_def stamped_def check_default_def
      mutable_default_suggestion_def)

lemma stamped_best_practices_node:
  "list_all (stamped [''best_practice'']) (emitted (best_practices_node node))"
proof (cases node)
  case (FunctionDef name a body decorator_list returns type_params lineno end_lineno)
  have "best_practices_node node = fold (check_default name lineno) (defaults a)"
    by (rule ext) (simp add: FunctionDef)
  then have "emitted (best_practices_node node) =
      concat (map (\<lambda>x. emitted (check_default name lineno x)) (defaults a))"
    by (simp add: emitted_fold appends_check_default)
  then show ?thesis
    by (simp add: list_all_concat_map stamped_check_default)
qed (simp_all add: emitted_def suggestions_append_def stamped_def
    bare_except_suggestion_def global_suggestion_def)

lemma stamped_performance_issues_node:
  "list_all (stamped [''performance'']) (emitted (performance_issues_node node))"
  by (cases node)
    (simp_all add: emitted_def suggestions_append_def stamped_def scan_loop_eq
      concatenation_suggestion_def)

lemma stamped_style_issues_line:
  "list_all (stamped [''style'']) (emitted (style_issues_line i ln))"
  by (simp add: emitted_def suggestions_append_def stamped_def style_issues_line_def Let_def
      line_length_suggestion_def trailing_whitespace_suggestion_def
      missing_spaces_suggestion_def multiple_statements_suggestion_def)

lemma stamped_naming_emitted:
  "list_all (stamped [''style'', ''readability'']) (naming_emitted tree)"
  unfolding naming_emitted_def
  by (rule list_all_concat_map) (rule stamped_naming_conventions_node)

lemma stamped_complexity_emitted: "list_all (stamped [''complexity'']) (complexity_emitted tree)"
  unfolding complexity_emitted_def
  by (rule list_all_concat_map) (rule stamped_code_complexity_node)

lemma stamped_best_practices_emitted:
  "list_all (stamped [''best_practice'']) (best_practices_emitted tree)"
  unfolding best_practices_emitted_def
  by (rule list_all_concat_map) (rule stamped_best_practices_node)

lemma stamped_performance_emitted:
  "list_all (stamped [''performance'']) (performance_emitted tree)"
  unfolding performance_emitted_def
  by (rule list_all_concat_map) (rule stamped_performance_issues_node)

lemma stamped_style_emitted: "list_all (stamped [''style'']) (style_emitted code)"
proof -
  have "list_all (stamped [''style'']) (case x of (i, ln) \<Rightarrow> emitted (style_issues_line i ln))"
    for x
    by (cases x) (simp add: stamped_style_issues_line)
  then show ?thesis
    unfolding style_emitted_def by (rule list_all_concat_map)
qed

lemma filter_none: "list_all Q xs \<Longrightarrow> (\<And>s. Q s \<Longrightarrow> \<not> P s) \<Longrightarrow> filter P xs = []"
  by (induction xs) auto

lemma filter_concat_map: "filter P (concat (map g xs)) = concat (map (\<lambda>x. filter P (g x)) xs)"
  by (induction xs) simp_all

lemma concat_map_if: "concat (map (\<lambda>x. if Q x then [h x] else []) xs) = map h (filter Q xs)"
  by (induction xs) simp_all

lemma located_parsed_result: "list_all located (parsed_result tree code)"
proof -
  have "list_all (stamped ts) xs \<Longrightarrow> ''syntax'' \<notin> set ts \<Longrightarrow> list_all located xs" for ts xs
    by (auto simp: list_all_iff stamped_def located_def)
  from this [OF stamped_naming_emitted] this [OF stamped_complexity_emitted]
    this [OF stamped_best_practices_emitted] this [OF stamped_performance_emitted]
    this [OF stamped_style_emitted]
  show ?thesis by (simp add: parsed_result_def)
qed

lemma analyze_cases:
  obtains (parsed) tree where "ast_parse code = Parsed tree"
      "analyze ast_parse self code =
        (Inr (parsed_result tree code), \<lparr>suggestions = parsed_result tree code\<rparr>)"
  | (syntax_error) e where "ast_parse code = RaisedSyntaxError e"
      "analyze ast_parse self code =
        (Inr [syntax_suggestion e], \<lparr>suggestions = [syntax_suggestion e]\<rparr>)"
  | (raised) x where "ast_parse code = Raised x"
      "analyze ast_parse self code = (Inl x, \<lparr>suggestions = []\<rparr>)"
  by (cases "ast_parse code") (auto simp: analyze_parsed analyze_syntax_error analyze_raised)



section \<open>Complexity\<close>

lemma fold_complexity_step:
  "fold complexity_step xs c =
     c + int (length (filter is_decision xs))
       + sum_list (map (\<lambda>b. int (length (values_of b)) - 1) (filter is_BoolOp xs))"
proof (induction xs arbitrary: c)
  case Nil
  show ?case by simp
next
  case (Cons x xs)
  show ?case by (cases x) (simp_all add: Cons is_decision_def)
qed

lemma calculate_complexity_eq: "calculate_complexity n = cyclomatic_complexity n"
  by (simp add: calculate_complexity_def cyclomatic_complexity_def fold_complexity_step)

lemma high_complexity_code_complexity_node:
  "filter is_high_complexity (emitted (code_complexity_node n)) =
     (if is_FunctionDef n \<and> 10 < cyclomatic_complexity n
      then [high_complexity_suggestion (name_of n) (cyclomatic_complexity n) (lineno_of n)]
      else [])"
  by (cases n)
    (simp_all add: emitted_def suggestions_append_def Let_def is_high_complexity_def
      calculate_complexity_eq high_complexity_suggestion_def too_long_suggestion_def
      split: option.split)

lemma high_complexity_parsed_result:
  "filter is_high_complexity (parsed_result tree code) =
     map (\<lambda>f. high_complexity_suggestion (name_of f) (cyclomatic_complexity f) (lineno_of f))
       (filter (\<lambda>n. is_FunctionDef n \<and> 10 < cyclomatic_complexity n) (walk tree))"
proof -
  have "filter is_high_complexity (naming_emitted tree) = []"
    by (rule filter_none [OF stamped_naming_emitted])
      (auto simp: stamped_def is_high_complexity_def)
  moreover have "filter is_high_complexity (best_practices_emitted tree) = []"
    by (rule filter_none [OF stamped_best_practices_emitted])
      (auto simp: stamped_def is_high_complexity_def)
  moreover have "filter is_high_complexity (performance_emitted tree) = []"
    by (rule filter_none [OF stamped_performance_emitted])
      (auto simp: stamped_def is_high_complexity_def)
  moreover have "filter is_high_complexity (style_emitted code) = []"
    by (rule filter_none [OF stamped_style_emitted])
      (auto simp: stamped_def is_high_complexity_def)
  moreover have "filter is_high_complexity (complexity_emitted tree) =
     map (\<lambda>f. high_complexity_suggestion (name_of f) (cyclomatic_complexity f) (lineno_of f))
       (filter (\<lambda>n. is_FunctionDef n \<and> 10 < cyclomatic_complexity n) (walk tree))"
    by (simp add: complexity_emitted_def filter_concat_map high_complexity_code_complexity_node
        concat_map_if)
  ultimately show ?thesis by (simp add: parsed_result_def)
qed

section \<open>Performance\<close>

lemma performance_performance_issues_node:
  "filter is_performance (emitted (performance_issues_node n)) =
     (if is_loop n \<and> list_ex is_add_to_name (walk n)
      then [concatenation_suggestion (lineno_of n)] else [])"
  by (cases n)
    (simp_all add: emitted_def suggestions_append_def is_performance_def is_loop_def
      scan_loop_eq concatenation_suggestion_def)

lemma performance_parsed_result:
  "filter is_performance (parsed_result tree code) =
     map (\<lambda>l. concatenation_suggestion (lineno_of l))
       (filter (\<lambda>n. is_loop n \<and> list_ex is_add_to_name (walk n)) (walk tree))"
proof -
  have "filter is_performance (naming_emitted tree) = []"
    by (rule filter_none [OF stamped_naming_emitted])
      (auto simp: stamped_def is_performance_def)
  moreover have "filter is_performance (complexity_emitted tree) = []"
    by (rule filter_none [OF stamped_complexity_emitted])
      (auto simp: stamped_def is_performance_def)
  moreover have "filter is_performance (best_practices_emitted tree) = []"
    by (rule filter_none [OF stamped_best_practices_emitted])
      (auto simp: stamped_def is_performance_def)
  moreover have "filter is_performance (style_emitted code) = []"
    by (rule filter_none [OF stamped_style_emitted])
      (auto simp: stamped_def is_performance_def)
  moreover have "filter is_performance (performance_emitted tree) =
     map (\<lambda>l. concatenation_suggestion (lineno_of l))
       (filter (\<lambda>n. is_loop n \<and> list_ex is_add_to_name (walk n)) (walk tree))"
    by (simp add: performance_emitted_def filter_concat_map performance_performance_issues_node
        concat_map_if)
  ultimately show ?thesis by (simp add: parsed_result_def)
qed

section \<open>Naming\<close>





section \<open>Missing spaces\<close>






section \<open>The claims\<close>

text \<open>
  Claim C9. Calling \<open>analyze\<close> twice on the same text gives the same outcome, also when
  the second call is made on the analyzer the first call left behind: a call starts by
  emptying the list, so it returns what a call on a fresh analyzer returns and holds nothing
  of an earlier call, whatever text that call was given.
\<close>

theorem analyze_twice_same_result:
  "analyze ast_parse (snd (analyze ast_parse self code)) code = analyze ast_parse self code
   \<and> analyze ast_parse (snd (analyze ast_parse self other_code)) code
       = analyze ast_parse \<lparr>suggestions = []\<rparr> code
   \<and> analyze ast_parse self code = analyze ast_parse \<lparr>suggestions = []\<rparr> code"
proof -
  have reset: "a\<lparr>suggestions := []\<rparr> = \<lparr>suggestions = []\<rparr>" for a :: analyzer
    by (cases a) simp
  have fresh: "analyze ast_parse a code = analyze ast_parse \<lparr>suggestions = []\<rparr> code" for a
    unfolding analyze_def reset by simp
  show ?thesis
    using fresh [of self] fresh [of "snd (analyze ast_parse self code)"]
      fresh [of "snd (analyze ast_parse self other_code)"]
    by simp
qed



text \<open>
  Claim C3, as it stands: on every text \<open>analyze\<close> returns a list and raises nothing. It
  fails when the parser raises an exception that is not a \<^verbatim>\<open>SyntaxError\<close>, which the method
  does not catch: \<^verbatim>\<open>ast.parse\<close> raises \<^verbatim>\<open>RecursionError\<close> on a sum of a hundred thousand
  additions.
\<close>

theorem analyze_raises_counterexample:
  "fst (analyze (returning (Raised ''RecursionError'')) \<lparr>suggestions = []\<rparr>
     (nested_sum 100000)) = Inl ''RecursionError''"
  by (simp add: analyze_def returning_def)

text \<open>
  Claim C3, amended. Where the parser returns a tree or raises \<^verbatim>\<open>SyntaxError\<close>, \<open>analyze\<close>
  returns a list, which is also the list the analyzer then holds; a \<^verbatim>\<open>SyntaxError\<close> is
  reported as the one suggestion of type \<open>syntax\<close>. An exception of another class that the
  parser raises leaves \<open>analyze\<close>.
\<close>

theorem analyze_returns_unless_parser_raises:
  "(ast_parse code = Parsed tree \<or> ast_parse code = RaisedSyntaxError e \<longrightarrow>
      (\<exists>result. analyze ast_parse self code = (Inr result, \<lparr>suggestions = result\<rparr>)))
   \<and> (ast_parse code = RaisedSyntaxError e \<longrightarrow>
      fst (analyze ast_parse self code) = Inr [syntax_suggestion e])
   \<and> (ast_parse code = Raised x \<longrightarrow> fst (analyze ast_parse self code) = Inl x)"
  by (auto simp: analyze_parsed analyze_syntax_error analyze_raised)

theorem analyze_returns_unless_parser_raises_witness:
  "(\<exists>result. analyze (returning (Parsed (Module []))) \<lparr>suggestions = []\<rparr> [] =
      (Inr result, \<lparr>suggestions = result\<rparr>))
   \<and> fst (analyze (returning (RaisedSyntaxError broken_error)) \<lparr>suggestions = []\<rparr> broken_code)
       = Inr [syntax_suggestion broken_error]
   \<and> fst (analyze (returning (Raised ''RecursionError'')) \<lparr>suggestions = []\<rparr>
        (nested_sum 100000)) = Inl ''RecursionError''"
  using analyze_returns_unless_parser_raises
      [of "returning (Parsed (Module []))" "[]" "Module []" broken_error "\<lparr>suggestions = []\<rparr>"
        "''RecursionError''"]
    analyze_returns_unless_parser_raises
      [of "returning (RaisedSyntaxError broken_error)" broken_code "Module []" broken_error
        "\<lparr>suggestions = []\<rparr>" "''RecursionError''"]
    analyze_returns_unless_parser_raises
      [of "returning (Raised ''RecursionError'')" "nested_sum 100000" "Module []" broken_error
        "\<lparr>suggestions = []\<rparr>" "''RecursionError''"]
  by (simp add: returning_def)

text \<open>
  Claim C10. Every suggestion in a result of \<open>analyze\<close> whose type is not \<open>syntax\<close> carries
  a line number; after a successful parse every suggestion of the result does.
\<close>

theorem suggestions_carry_line:
  "fst (analyze ast_parse self code) = Inr result \<Longrightarrow>
     (\<forall>s \<in> set result. type s \<noteq> ''syntax'' \<longrightarrow> line s \<noteq> None)
     \<and> (ast_parse code = Parsed tree \<longrightarrow> (\<forall>s \<in> set result. line s \<noteq> None))"
proof (cases rule: analyze_cases [of ast_parse code self])
  case (parsed t)
  assume "fst (analyze ast_parse self code) = Inr result"
  with parsed have "result = parsed_result t code" by simp
  with located_parsed_result [of t code] have "list_all located result" by simp
  then show ?thesis by (simp add: list_all_iff located_def)
next
  case (syntax_error e)
  assume "fst (analyze ast_parse self code) = Inr result"
  with syntax_error show ?thesis by (auto simp: syntax_suggestion_def)
next
  case (raised x)
  assume "fst (analyze ast_parse self code) = Inr result"
  with raised show ?thesis by simp
qed

theorem suggestions_carry_line_witness:
  "fst (analyze (returning (Parsed bad_name_tree)) \<lparr>suggestions = []\<rparr> bad_name_code) =
     Inr [snake_case_suggestion ''BadFunctionName'' ''bad_function_name'' 1]
   \<and> line (snake_case_suggestion ''BadFunctionName'' ''bad_function_name'' 1) = Some 1"
proof -
  have r: "fst (analyze (returning (Parsed bad_name_tree)) \<lparr>suggestions = []\<rparr> bad_name_code) =
     Inr [snake_case_suggestion ''BadFunctionName'' ''bad_function_name'' 1]"
    by code_simp
  from suggestions_carry_line [OF r, of bad_name_tree] show ?thesis
    using r by (simp add: returning_def snake_case_suggestion_def)
qed


text \<open>
  Claim C2. After a successful parse, the suggestions of type \<open>complexity\<close> and severity
  \<open>high\<close> in the result are, in the order of the walk, one for each function definition
  (\<^verbatim>\<open>ast.FunctionDef\<close>) of the tree whose complexity exceeds 10, and no other: a function
  is flagged exactly when its complexity exceeds 10. The complexity the analyzer computes is
  the complexity of the specification. The function of six nested \<^verbatim>\<open>if\<close> statements has
  complexity 7 and is not flagged.
\<close>

theorem high_complexity_iff_above_ten:
  assumes "ast_parse code = Parsed tree"
  shows "\<exists>result. fst (analyze ast_parse self code) = Inr result
    \<and> filter is_high_complexity result =
        map (\<lambda>f. high_complexity_suggestion (name_of f) (cyclomatic_complexity f) (lineno_of f))
          (filter (\<lambda>n. is_FunctionDef n \<and> 10 < cyclomatic_complexity n) (walk tree))
    \<and> (\<forall>n. calculate_complexity n = cyclomatic_complexity n)"
  using assms
  by (simp add: analyze_parsed high_complexity_parsed_result calculate_complexity_eq)


theorem high_complexity_iff_above_ten_witness:
  "(\<exists>result. fst (analyze (returning (Parsed six_ifs_tree)) \<lparr>suggestions = []\<rparr> six_ifs_code)
       = Inr result \<and> filter is_high_complexity result = [])
   \<and> map calculate_complexity (filter is_FunctionDef (walk six_ifs_tree)) = [7]"
proof -
  have none: "filter (\<lambda>n. is_FunctionDef n \<and> 10 < cyclomatic_complexity n) (walk six_ifs_tree) = []"
    by code_simp
  have seven: "map calculate_complexity (filter is_FunctionDef (walk six_ifs_tree)) = [7]"
    by code_simp
  from high_complexity_iff_above_ten
    [of "returning (Parsed six_ifs_tree)" six_ifs_code six_ifs_tree "\<lparr>suggestions = []\<rparr>"]
    none seven
  show ?thesis by (auto simp: returning_def)
qed

text \<open>
  Claim C4. After a successful parse, the suggestions of type \<open>performance\<close> in the result
  are, in the order of the walk, one for each loop of the tree whose subtree holds an
  augmented addition to a name, whatever the number of such additions in the loop; each has
  severity \<open>medium\<close> and the line of its loop.
\<close>

theorem one_performance_suggestion_per_loop:
  assumes "ast_parse code = Parsed tree"
  shows "\<exists>result. fst (analyze ast_parse self code) = Inr result
    \<and> filter is_performance result =
        map (\<lambda>l. concatenation_suggestion (lineno_of l))
          (filter (\<lambda>n. is_loop n \<and> list_ex is_add_to_name (walk n)) (walk tree))
    \<and> (\<forall>lineno. type (concatenation_suggestion lineno) = ''performance''
          \<and> severity (concatenation_suggestion lineno) = ''medium''
          \<and> line (concatenation_suggestion lineno) = Some lineno)"
  using assms
  by (simp add: analyze_parsed performance_parsed_result concatenation_suggestion_def)

theorem one_performance_suggestion_per_loop_witness:
  "(\<exists>result. fst (analyze (returning (Parsed two_adds_tree)) \<lparr>suggestions = []\<rparr> two_adds_code)
       = Inr result \<and> filter is_performance result = [concatenation_suggestion 4])
   \<and> map (\<lambda>l. length (filter is_add_to_name (walk l))) (filter is_loop (walk two_adds_tree)) = [2]"
proof -
  have one: "map (\<lambda>l. concatenation_suggestion (lineno_of l))
       (filter (\<lambda>n. is_loop n \<and> list_ex is_add_to_name (walk n)) (walk two_adds_tree))
     = [concatenation_suggestion 4]"
    by code_simp
  have two: "map (\<lambda>l. length (filter is_add_to_name (walk l))) (filter is_loop (walk two_adds_tree))
     = [2]"
    by code_simp
  from one_performance_suggestion_per_loop
    [of "returning (Parsed two_adds_tree)" two_adds_code two_adds_tree "\<lparr>suggestions = []\<rparr>"]
    one two
  show ?thesis by (auto simp: returning_def)
qed









text \<open>
  Claim C8: a function whose span exceeds 50 lines gets a suggestion naming its actual line
  count. The analyzer measures \<^verbatim>\<open>end_lineno - lineno\<close>, one less than the number of lines:
  the function of 51 lines gets no suggestion, and for the function of 52 lines the message
  says 51 lines.
\<close>

theorem too_long_counts_one_line_less:
  "length (split newline (long_function_code 50)) = 51
   \<and> fst (analyze (returning (Parsed (long_function_tree 50))) \<lparr>suggestions = []\<rparr>
        (long_function_code 50)) = Inr []
   \<and> length (split newline (long_function_code 51)) = 52
   \<and> fst (analyze (returning (Parsed (long_function_tree 51))) \<lparr>suggestions = []\<rparr>
        (long_function_code 51)) =
      Inr [\<lparr>type = ''complexity'', severity = ''medium'',
        message = ''Function '' @ [CHR 0x27] @ ''f'' @ [CHR 0x27]
          @ '' is too long (51 lines). Consider breaking it down.'',
        line = Some 1, suggested_fix = None\<rparr>]"
  by code_simp

text \<open>
  Claim C6: every parameter whose default is a mutable literal gets a suggestion of type
  \<open>best_practice\<close>. The analyzer reads \<^verbatim>\<open>args.defaults\<close> only: the list default of a
  keyword-only parameter, which the parser puts in \<^verbatim>\<open>args.kw_defaults\<close>, gets none (the one
  suggestion for that text is about spaces), while the same default of a positional
  parameter is flagged.
\<close>

theorem keyword_only_default_not_flagged:
  "fst (analyze (returning (Parsed keyword_only_default_tree)) \<lparr>suggestions = []\<rparr>
      keyword_only_default_code) =
     Inr [\<lparr>type = ''style'', severity = ''low'',
       message = ''Missing spaces around assignment operator (PEP 8)'',
       line = Some 1, suggested_fix = Some ''def f(*, x = []):''\<rparr>]
   \<and> fst (analyze (returning (Parsed list_default_tree)) \<lparr>suggestions = []\<rparr>
      list_default_code) =
     Inr [mutable_default_suggestion ''f'' 1,
       \<lparr>type = ''style'', severity = ''low'',
       message = ''Missing spaces around assignment operator (PEP 8)'',
       line = Some 1, suggested_fix = Some ''def f(x = []):''\<rparr>]"
  by code_simp


end
